theory Spec2Isabelle
  imports Main "HOL-Library.Word" "HOL-Library.Sublist"
begin

section \<open>JavaScript strings\<close>

text \<open>
  A JavaScript string is a sequence of UTF-16 code units; \<open>length\<close>, \<open>slice\<close>,
  \<open>trim\<close>, \<open>split\<close> and \<open>lastIndexOf\<close> all count code units. The literals of
  the source are ASCII and are written through \<open>js\<close>.
\<close>

type_synonym jschar = "16 word"
type_synonym jsstring = "jschar list"

definition js :: "string \<Rightarrow> jsstring" where
  "js s = map of_char s"

definition newline :: jschar where
  "newline = 0x0A"

text \<open>
  \<open>String.prototype.trim\<close> strips the code units of ECMAScript's WhiteSpace and
  LineTerminator productions from both ends.
\<close>

definition is_whitespace :: "jschar \<Rightarrow> bool" where
  "is_whitespace c \<longleftrightarrow>
     c = 0x09 \<or> c = 0x0A \<or> c = 0x0B \<or> c = 0x0C \<or> c = 0x0D \<or> c = 0x20 \<or> c = 0xA0 \<or>
     c = 0x1680 \<or> (0x2000 \<le> c \<and> c \<le> 0x200A) \<or> c = 0x2028 \<or> c = 0x2029 \<or>
     c = 0x202F \<or> c = 0x205F \<or> c = 0x3000 \<or> c = 0xFEFF"

definition trim :: "jsstring \<Rightarrow> jsstring" where
  "trim s = rev (dropWhile is_whitespace (rev (dropWhile is_whitespace s)))"

text \<open>\<open>s.split('\n')\<close>: never empty, the empty string gives one empty line.\<close>

fun split_lines :: "jsstring \<Rightarrow> jsstring list" where
  "split_lines [] = [[]]"
| "split_lines (c # cs) =
     (if c = newline then [] # split_lines cs
      else (c # hd (split_lines cs)) # tl (split_lines cs))"

text \<open>\<open>xs.join('\n')\<close>: the empty array gives the empty string.\<close>

fun join_lines :: "jsstring list \<Rightarrow> jsstring" where
  "join_lines [] = []"
| "join_lines [l] = l"
| "join_lines (l # m # ls) = l @ newline # join_lines (m # ls)"

text \<open>
  \<open>s.search(/[...]/)\<close> for a character class: the index of the first code unit in the
  class, or \<open>-1\<close>.
\<close>

fun search_class :: "(jschar \<Rightarrow> bool) \<Rightarrow> jsstring \<Rightarrow> int" where
  "search_class P [] = - 1"
| "search_class P (c # cs) =
     (if P c then 0
      else (let r = search_class P cs in if r = - 1 then - 1 else r + 1))"

text \<open>
  \<^verbatim>\<open>xs.slice(start, stop)\<close> of the standard library, for arrays and strings alike: a
  negative index counts from the end, both are clamped to the length, and an empty
  range gives the empty result.
\<close>

definition js_slice :: "'a list \<Rightarrow> int \<Rightarrow> int \<Rightarrow> 'a list" where
  "js_slice xs start stop =
     (let len = int (length xs);
          from = (if start < 0 then max (len + start) 0 else min start len);
          to = (if stop < 0 then max (len + stop) 0 else min stop len)
      in take (nat (to - from)) (drop (nat from) xs))"

text \<open>\<^verbatim>\<open>xs.slice(start)\<close>: the second index is the length.\<close>

definition js_slice_from :: "'a list \<Rightarrow> int \<Rightarrow> 'a list" where
  "js_slice_from xs start = js_slice xs start (int (length xs))"

section \<open>signature.ts: extractLead\<close>

record ISplit =
  lead :: jsstring
  remainder :: jsstring

text \<open>The class of the regular expression \<^verbatim>\<open>/[\\*#[\]<>_]/g\<close>: \<^verbatim>\<open>\ * # [ ] < > _\<close>.\<close>

definition markdown_special :: "jschar \<Rightarrow> bool" where
  "markdown_special c \<longleftrightarrow>
     c = 0x5C \<or> c = 0x2A \<or> c = 0x23 \<or> c = 0x5B \<or> c = 0x5D \<or> c = 0x3C \<or> c = 0x3E \<or>
     c = 0x5F"

text \<open>
  The \<^verbatim>\<open>for\<close> loop of \<^verbatim>\<open>extractLead\<close> over the sliced lines: \<open>leadLines\<close> is
  the accumulator, the flag is \<open>splitOnParagraph\<close>, and the \<^verbatim>\<open>break\<close> is the
  return at the first line whose trimmed text is empty.
\<close>

fun lead_loop :: "jsstring list \<Rightarrow> jsstring list \<Rightarrow> jsstring list \<times> bool" where
  "lead_loop [] leadLines = (leadLines, False)"
| "lead_loop (line # rest) leadLines =
     (if trim line = [] then (leadLines, True)
      else lead_loop rest (leadLines @ [line]))"

text \<open>
  \<^verbatim>\<open>size\<close> (here \<open>sz\<close>) is a JavaScript number, an integer here, which may be
  negative: \<^verbatim>\<open>lines.slice(0, size + 1)\<close> then counts its end from the end of the
  array.
\<close>

definition extractLead :: "jsstring list \<Rightarrow> int \<Rightarrow> ISplit option" where
  "extractLead lines sz =
     (let (leadLines, splitOnParagraph) = lead_loop (js_slice lines 0 (sz + 1)) [];
          leadCandidate = join_lines leadLines
      in if splitOnParagraph \<and> search_class markdown_special leadCandidate = - 1
         then Some \<lparr>lead = leadCandidate,
                    remainder = join_lines (js_slice_from lines (int (length leadLines) + 1))\<rparr>
         else None)"


section \<open>signature.ts: signatureToMarkdown\<close>

record MarkupContent =
  kind :: jsstring
  mvalue :: jsstring

text \<open>\<^verbatim>\<open>string | MarkupContent\<close>, and a parameter label \<^verbatim>\<open>string | [uinteger, uinteger]\<close>.\<close>

datatype documentation = DocString jsstring | DocMarkup MarkupContent

datatype parameter_label = LabelString jsstring | LabelOffsets int int

record ParameterInformation =
  p_label :: parameter_label
  p_documentation :: "documentation option"

text \<open>An optional field is \<open>None\<close> when it is \<^verbatim>\<open>undefined\<close>.\<close>

record SignatureInformation =
  label :: jsstring
  documentation :: "documentation option"
  parameters :: "ParameterInformation list option"
  activeParameter :: "int option"

record SignatureHelp =
  signatures :: "SignatureInformation list"
  activeSignature :: "int option"
  h_activeParameter :: "int option"

text \<open>The three outcomes of the request: \<^verbatim>\<open>null\<close>, \<^verbatim>\<open>undefined\<close>, or a response.\<close>

datatype response = Null | Undefined | Help SignatureHelp

record position =
  line :: int
  ch :: int

text \<open>
  \<^verbatim>\<open>Math.max\<close> of no arguments is \<^verbatim>\<open>-Infinity\<close>, so an offset, and the column
  computed from it, is an integer or \<^verbatim>\<open>-Infinity\<close>.
\<close>

datatype jsnum = NegInfinity | Finite int

record editor_position =
  e_line :: int
  e_ch :: jsnum

record ce_position =
  ce_line :: int
  ce_column :: jsnum

datatype error = TypeError

datatype level = LOG | DEBUG | WARN | ERROR

datatype payload =
    PString jsstring
  | PItem SignatureInformation
  | PHelp SignatureHelp
  | PResponse response
  | PMarkup MarkupContent
  | PPosition position

text \<open>A call of a method of the console: the level, the message, the other arguments.\<close>

datatype log_entry = LogEntry level string "payload list"

text \<open>
  What a function that logs and may throw gives back: the console calls it made, in
  order, and then either the exception (\<open>Inl\<close>) or the value returned (\<open>Inr\<close>).
\<close>

type_synonym 'a logged = "log_entry list \<times> (error + 'a)"

text \<open>JavaScript truthiness of \<^verbatim>\<open>string | MarkupContent | undefined\<close>: an object is
  truthy, a string is truthy unless empty.\<close>

fun truthy :: "documentation option \<Rightarrow> bool" where
  "truthy None = False"
| "truthy (Some (DocString s)) = (s \<noteq> [])"
| "truthy (Some (DocMarkup m)) = True"

text \<open>
  \<^verbatim>\<open>escapeMarkdown\<close> is imported from \<^verbatim>\<open>../utils\<close>; it is a parameter here, as the
  code highlighter is a parameter of the source.
\<close>

fun getMarkdown :: "(jsstring \<Rightarrow> jsstring) \<Rightarrow> documentation \<Rightarrow> jsstring" where
  "getMarkdown escapeMarkdown (DocString item) = escapeMarkdown item"
| "getMarkdown escapeMarkdown (DocMarkup item) =
     (if kind item = js ''markdown'' then mvalue item else escapeMarkdown (mvalue item))"

text \<open>The unmarked block \<^verbatim>\<open>'```' + language + '\n' + label + '\n```'\<close>.\<close>

definition fence :: "jsstring \<Rightarrow> jsstring \<Rightarrow> jsstring" where
  "fence language lbl = js ''```'' @ language @ [newline] @ lbl @ [newline] @ js ''```''"

text \<open>
  Lines 88 to 111: the active parameter and the code block. Reading
  \<^verbatim>\<open>item.parameters[activeParameter]\<close> outside the array gives \<^verbatim>\<open>undefined\<close>, and
  reading \<^verbatim>\<open>.label\<close> of it throws a TypeError.
\<close>

definition signature_code_block ::
  "(jsstring \<Rightarrow> jsstring \<Rightarrow> jsstring \<Rightarrow> jsstring) \<Rightarrow> SignatureInformation \<Rightarrow> jsstring \<Rightarrow>
   int option \<Rightarrow> jsstring logged" where
  "signature_code_block codeHighlighter item language activeParameterFallback =
     (let active = (case activeParameter item of Some a \<Rightarrow> Some a
                    | None \<Rightarrow> activeParameterFallback)
      in case (parameters item, active) of
           (Some ps, Some a) \<Rightarrow>
             if a > int (length ps)
             then ([LogEntry ERROR
                      ''LSP server returned wrong number for activeSignature for: ''
                      [PItem item]],
                   Inr (fence language (label item)))
             else if 0 \<le> a \<and> a < int (length ps)
             then (let parameter = ps ! nat a;
                       substring = (case p_label parameter of
                                      LabelString s \<Rightarrow> s
                                    | LabelOffsets b e \<Rightarrow> js_slice (label item) b e)
                   in ([], Inr (codeHighlighter (label item) substring language)))
             else ([], Inl TypeError)
         | _ \<Rightarrow> ([], Inr (fence language (label item))))"

text \<open>The loop over the lines of a plain-text documentation (lines 123 to 129).\<close>

fun plain_loop ::
  "(jsstring \<Rightarrow> jsstring) \<Rightarrow> SignatureInformation \<Rightarrow> jsstring list \<Rightarrow> jsstring \<Rightarrow> jsstring" where
  "plain_loop escapeMarkdown item [] details = details"
| "plain_loop escapeMarkdown item (ln # rest) details =
     (if trim ln = trim (label item) then plain_loop escapeMarkdown item rest details
      else plain_loop escapeMarkdown item rest
             (details @ getMarkdown escapeMarkdown (DocString ln) @ [newline]))"

text \<open>
  Lines 112 to 143: the text of \<^verbatim>\<open>details\<close> before the collapsing. In the list of
  parameters, the filter keeps the documented ones, so the map never meets an
  undocumented one.
\<close>

definition signature_details ::
  "(jsstring \<Rightarrow> jsstring) \<Rightarrow> SignatureInformation \<Rightarrow> log_entry list \<times> jsstring" where
  "signature_details escapeMarkdown item =
     (if truthy (documentation item) then
        (case documentation item of
           Some (DocString s) \<Rightarrow> ([], plain_loop escapeMarkdown item (split_lines s) [])
         | Some (DocMarkup m) \<Rightarrow>
             if kind m = js ''plaintext''
             then ([], plain_loop escapeMarkdown item (split_lines (mvalue m)) [])
             else ((if kind m \<noteq> js ''markdown''
                    then [LogEntry WARN ''Unknown MarkupContent kind:'' [PString (kind m)]]
                    else []),
                   mvalue m)
         | None \<Rightarrow> ([], []))
      else
        (case parameters item of
           Some ps \<Rightarrow>
             ([], [newline, newline] @
                  join_lines
                    (map (\<lambda>parameter.
                            js ''- '' @
                            (case p_documentation parameter of
                               Some d \<Rightarrow> getMarkdown escapeMarkdown d
                             | None \<Rightarrow> []))
                       (filter (\<lambda>parameter. truthy (p_documentation parameter)) ps)))
         | None \<Rightarrow> ([], [])))"

text \<open>Lines 144 to 158: what is appended to the code block.\<close>

definition details_section :: "jsstring \<Rightarrow> int \<Rightarrow> jsstring" where
  "details_section details maxLinesBeforeCollapse =
     (if details \<noteq> [] then
        (let lines = split_lines (trim details);
             details' =
               (if int (length lines) > maxLinesBeforeCollapse then
                  (case extractLead lines maxLinesBeforeCollapse of
                     Some split \<Rightarrow>
                       lead split @ [newline] @ js ''<details>'' @ [newline] @
                       remainder split @ [newline] @ js ''</details>''
                   | None \<Rightarrow>
                       js ''<details>'' @ [newline] @ details @ [newline] @ js ''</details>'')
                else details)
         in [newline, newline] @ details')
      else [newline])"

text \<open>
  The exported function. The logger of the source is the list of entries returned.
  \<^verbatim>\<open>maxLinesBeforeCollapse\<close> is a JavaScript number, an integer here.
\<close>

definition signatureToMarkdown ::
  "(jsstring \<Rightarrow> jsstring) \<Rightarrow> SignatureInformation \<Rightarrow> jsstring \<Rightarrow>
   (jsstring \<Rightarrow> jsstring \<Rightarrow> jsstring \<Rightarrow> jsstring) \<Rightarrow> int option \<Rightarrow> int \<Rightarrow>
   jsstring logged" where
  "signatureToMarkdown escapeMarkdown item language codeHighlighter activeParameterFallback
     maxLinesBeforeCollapse =
     (case signature_code_block codeHighlighter item language activeParameterFallback of
        (logs, Inl e) \<Rightarrow> (logs, Inl e)
      | (logs, Inr markdown) \<Rightarrow>
          (let (logs', details) = signature_details escapeMarkdown item
           in (logs @ logs',
               Inr (markdown @ details_section details maxLinesBeforeCollapse))))"


section \<open>signature.ts: the feature and its collaborators\<close>

record cm_editor =
  hasFocus :: bool
  getValue :: jsstring

text \<open>
  The options of \<^verbatim>\<open>showOrCreate\<close> that vary: \<open>anchor\<close> is the option
  \<^verbatim>\<open>position\<close> and \<open>tooltip_id\<close> the option \<^verbatim>\<open>id\<close>; the editor and adapter
  handles and the constant placement options are left out.
\<close>

record show_options =
  markup :: MarkupContent
  anchor :: editor_position
  tooltip_id :: string
  className :: string

definition TOOLTIP_ID :: string where
  "TOOLTIP_ID = ''signature''"

definition CLASS_NAME :: string where
  "CLASS_NAME = ''lsp-signature-help''"

text \<open>
  Modelled from the spec: the popup collaborator (\<^verbatim>\<open>EditorTooltipManager\<close> of
  \<^verbatim>\<open>../components/free_tooltip\<close>, which is not among the sources) offers show, hide
  and "is shown", and at most one popup is shown at a time. Its state is the options
  of the popup that is shown, or \<open>None\<close> when none is shown.
\<close>

type_synonym popup = "show_options option"

text \<open>
  The instance (\<^verbatim>\<open>this\<close>) with what it reads from its collaborators: the fields of
  the class, the settings, the popup, the virtual editor, the connection, and the
  functions imported from \<^verbatim>\<open>@jupyterlab/lsp\<close>, \<^verbatim>\<open>../converter\<close> and \<^verbatim>\<open>../utils\<close>,
  which are parameters. \<open>signatureCharacters_cache\<close> is the field
  \<^verbatim>\<open>_signatureCharacters\<close>, empty when it is \<^verbatim>\<open>undefined\<close>;
  \<open>triggerCharacters\<close> is
  \<^verbatim>\<open>connection.serverCapabilities?.signatureHelpProvider?.triggerCharacters\<close>, and
  \<open>connection_ready\<close> is
  \<^verbatim>\<open>connection.isReady && serverCapabilities?.signatureHelpProvider\<close>.
\<close>

record SignatureCM =
  signatureCharacter :: "position option"
  signatureCharacters_cache :: "jsstring list"
  triggerCharacters :: "jsstring list option"
  closeCharacters :: "jsstring list"
  maxLines :: int
  connection_ready :: bool
  tooltip :: popup
  get_cursor_position :: position
  root_position_to_editor :: "position \<Rightarrow> editor_position"
  get_cm_editor :: "position \<Rightarrow> cm_editor"
  get_language_at :: "editor_position \<Rightarrow> cm_editor \<Rightarrow> jsstring"
  highlightCode :: "jsstring \<Rightarrow> jsstring \<Rightarrow> jsstring \<Rightarrow> jsstring"
  escapeMarkdown :: "jsstring \<Rightarrow> jsstring"
  offsetAtPosition :: "ce_position \<Rightarrow> jsstring list \<Rightarrow> int"
  positionAtOffset :: "jsnum \<Rightarrow> jsstring list \<Rightarrow> ce_position"
  cm_to_ce :: "editor_position \<Rightarrow> ce_position"
  ce_to_cm :: "ce_position \<Rightarrow> editor_position"

text \<open>
  The getter \<^verbatim>\<open>signatureCharacters\<close> (lines 414 to 420): while the cache is empty it
  is filled from the capabilities of the server, or with the empty array; then the
  cache is returned. \<open>signatureCharacters\<close> is the value returned, and
  \<open>signatureCharacters_cached\<close> the instance the getter leaves.
\<close>

definition signatureCharacters :: "SignatureCM \<Rightarrow> jsstring list" where
  "signatureCharacters this =
     (if signatureCharacters_cache this = []
      then (case triggerCharacters this of Some cs \<Rightarrow> cs | None \<Rightarrow> [])
      else signatureCharacters_cache this)"

definition signatureCharacters_cached :: "SignatureCM \<Rightarrow> SignatureCM" where
  "signatureCharacters_cached this =
     this\<lparr>signatureCharacters_cache := signatureCharacters this\<rparr>"

datatype tooltip_call = Remove | Hide | ShowOrCreate show_options

datatype effect = Console log_entry | Tooltip tooltip_call

text \<open>
  Modelled from the spec: what a call does to the popup collaborator, which is not
  among the sources. After \<^verbatim>\<open>hide()\<close> or \<^verbatim>\<open>remove()\<close> no popup is shown, after
  \<^verbatim>\<open>showOrCreate\<close> the popup with these options is; the console does not touch it.
\<close>

fun tooltip_step :: "popup \<Rightarrow> effect \<Rightarrow> popup" where
  "tooltip_step t (Console _) = t"
| "tooltip_step t (Tooltip Remove) = None"
| "tooltip_step t (Tooltip Hide) = None"
| "tooltip_step t (Tooltip (ShowOrCreate opts)) = Some opts"

definition run_effects :: "effect list \<Rightarrow> popup \<Rightarrow> popup" where
  "run_effects effects t = foldl tooltip_step t effects"

text \<open>The calls made on the popup collaborator, in order.\<close>

fun tooltip_calls :: "effect list \<Rightarrow> tooltip_call list" where
  "tooltip_calls [] = []"
| "tooltip_calls (Console _ # es) = tooltip_calls es"
| "tooltip_calls (Tooltip c # es) = c # tooltip_calls es"

fun is_show :: "tooltip_call \<Rightarrow> bool" where
  "is_show (ShowOrCreate _) = True"
| "is_show _ = False"

text \<open>
  Modelled from the spec: \<^verbatim>\<open>isShown(id)\<close> of the popup collaborator, which is not
  among the sources: a popup is shown and it was shown under this identifier.
\<close>

definition isShown :: "popup \<Rightarrow> string \<Rightarrow> bool" where
  "isShown t ident = (case t of Some opts \<Rightarrow> tooltip_id opts = ident | None \<Rightarrow> False)"

definition isSignatureShown :: "SignatureCM \<Rightarrow> bool" where
  "isSignatureShown this = isShown (tooltip this) TOOLTIP_ID"

section \<open>signature.ts: get\_markup\_for\_signature\_help\<close>

text \<open>The method \<^verbatim>\<open>signatureToMarkdown\<close> of the class (lines 292 to 305).\<close>

definition signatureToMarkdown_method ::
  "SignatureCM \<Rightarrow> SignatureInformation \<Rightarrow> jsstring \<Rightarrow> int option \<Rightarrow> jsstring logged" where
  "signatureToMarkdown_method this item language activeParameterFallback =
     signatureToMarkdown (escapeMarkdown this) item language (highlightCode this)
       activeParameterFallback (maxLines this)"

text \<open>
  The \<^verbatim>\<open>forEach\<close> of lines 250 to 253: each item is formatted with no fallback and
  pushed on the array \<^verbatim>\<open>signatures\<close> (here \<open>markdowns\<close>); a throw ends the loop.
\<close>

fun format_all ::
  "SignatureCM \<Rightarrow> jsstring \<Rightarrow> SignatureInformation list \<Rightarrow> log_entry list \<Rightarrow> jsstring list \<Rightarrow>
   jsstring list logged" where
  "format_all this language [] logs markdowns = (logs, Inr markdowns)"
| "format_all this language (item # items) logs markdowns =
     (case signatureToMarkdown_method this item language None of
        (logs', Inl e) \<Rightarrow> (logs @ logs', Inl e)
      | (logs', Inr markdown) \<Rightarrow>
          format_all this language items (logs @ logs') (markdowns @ [markdown]))"

text \<open>\<^verbatim>\<open>signatures.join('\n\n')\<close>.\<close>

fun join_blank :: "jsstring list \<Rightarrow> jsstring" where
  "join_blank [] = []"
| "join_blank [l] = l"
| "join_blank (l # m # ls) = l @ [newline, newline] @ join_blank (m # ls)"

text \<open>
  \<^verbatim>\<open>activeSignature\<close> is \<open>None\<close> when it is \<^verbatim>\<open>null\<close> or \<^verbatim>\<open>undefined\<close>. A negative
  index reads \<^verbatim>\<open>undefined\<close> from the array, and \<^verbatim>\<open>signatureToMarkdown\<close> throws on
  reading \<^verbatim>\<open>item.activeParameter\<close> of it.
\<close>

definition get_markup_for_signature_help ::
  "SignatureCM \<Rightarrow> SignatureHelp \<Rightarrow> jsstring \<Rightarrow> MarkupContent logged" where
  "get_markup_for_signature_help this response language =
     (let all = (\<lambda>logs.
            case format_all this language (signatures response) logs [] of
              (logs', Inl e) \<Rightarrow> (logs', Inl e)
            | (logs', Inr markdowns) \<Rightarrow>
                (logs', Inr \<lparr>kind = js ''markdown'', mvalue = join_blank markdowns\<rparr>))
      in case activeSignature response of
           Some a \<Rightarrow>
             if a \<ge> int (length (signatures response))
             then all [LogEntry ERROR
                         ''LSP server returned wrong number for activeSignature for: ''
                         [PHelp response]]
             else if 0 \<le> a
             then (case signatureToMarkdown_method this (signatures response ! nat a) language
                          (h_activeParameter response) of
                     (logs, Inl e) \<Rightarrow> (logs, Inl e)
                   | (logs, Inr v) \<Rightarrow> (logs, Inr \<lparr>kind = js ''markdown'', mvalue = v\<rparr>))
             else ([], Inl TypeError)
         | None \<Rightarrow> all [])"

section \<open>signature.ts: handleSignature\<close>

text \<open>
  \<^verbatim>\<open>s.lastIndexOf(p)\<close>: the greatest index at which \<open>p\<close> starts in \<open>s\<close>, or \<open>-1\<close>;
  the empty string is found at the length of \<open>s\<close>.
\<close>

fun lastIndexOf_from :: "jsstring \<Rightarrow> jsstring \<Rightarrow> nat \<Rightarrow> int" where
  "lastIndexOf_from s p 0 = (if prefix p s then 0 else - 1)"
| "lastIndexOf_from s p (Suc k) =
     (if prefix p (drop (Suc k) s) then int (Suc k) else lastIndexOf_from s p k)"

definition lastIndexOf :: "jsstring \<Rightarrow> jsstring \<Rightarrow> int" where
  "lastIndexOf s p = lastIndexOf_from s p (length s)"

fun Math_max :: "int list \<Rightarrow> jsnum" where
  "Math_max [] = NegInfinity"
| "Math_max (x # xs) =
     (case Math_max xs of NegInfinity \<Rightarrow> Finite x | Finite m \<Rightarrow> Finite (max x m))"

text \<open>
  Lines 376 to 394, when \<^verbatim>\<open>display_position\<close> is \<^verbatim>\<open>null\<close>.
  \<^verbatim>\<open>content.substring(0, offset)\<close> clamps the offset to the string.
\<close>

definition find_display_position ::
  "SignatureCM \<Rightarrow> cm_editor \<Rightarrow> editor_position \<Rightarrow> editor_position" where
  "find_display_position this cm_ed editor_pos =
     (let content = getValue cm_ed;
          lines = split_lines content;
          offset = offsetAtPosition this (cm_to_ce this editor_pos) lines;
          subset = take (nat offset) content;
          lastTriggerCharacterOffset =
            Math_max (map (\<lambda>character. lastIndexOf subset character)
                        (signatureCharacters this))
      in if lastTriggerCharacterOffset \<noteq> Finite (- 1)
         then ce_to_cm this (positionAtOffset this lastTriggerCharacterOffset lines)
         else editor_pos)"

text \<open>
  The effects of \<^verbatim>\<open>handleSignature\<close> in order, and the exception it ends with, if
  any. \<^verbatim>\<open>display_position\<close> is \<open>None\<close> when it is \<^verbatim>\<open>null\<close>.
\<close>

definition handleSignature ::
  "SignatureCM \<Rightarrow> response \<Rightarrow> position \<Rightarrow> editor_position option \<Rightarrow>
   effect list \<times> error option" where
  "handleSignature this resp position_at_request display_position =
     (let received = [Console (LogEntry LOG ''Signature received'' [PResponse resp])];
          first = (case resp of
                     Null \<Rightarrow> [Tooltip Remove]
                   | Undefined \<Rightarrow> []
                   | Help _ \<Rightarrow> [Tooltip Hide]);
          ignoring = (\<lambda>message. Console (LogEntry DEBUG message []))
      in case resp of
           Help r \<Rightarrow>
             if signatureCharacter this = None \<or> signatures r = []
             then (received @ first @
                   [Tooltip Remove,
                    ignoring ''Ignoring signature response: cursor lost or response empty''],
                   None)
             else
               (let root_position = get_cursor_position this in
                if line position_at_request \<noteq> line root_position \<or>
                   ch root_position < ch position_at_request
                then (received @ first @
                      [ignoring
                         ''Ignoring signature response: cursor has receded or changed line'',
                       Tooltip Remove],
                      None)
                else
                  (let cm_ed = get_cm_editor this root_position in
                   if \<not> hasFocus cm_ed
                   then (received @ first @
                         [ignoring
                            ''Ignoring signature response: the corresponding editor lost focus'',
                          Tooltip Remove],
                         None)
                   else
                     (let editor_pos = root_position_to_editor this root_position;
                          language = get_language_at this editor_pos cm_ed
                      in case get_markup_for_signature_help this r language of
                           (logs, Inl e) \<Rightarrow> (received @ first @ map Console logs, Some e)
                         | (logs, Inr mk) \<Rightarrow>
                             (let shown =
                                    Console (LogEntry LOG ''Signature will be shown''
                                      [PString language, PMarkup mk, PPosition root_position,
                                       PHelp r]);
                                  display = (case display_position of
                                               Some p \<Rightarrow> p
                                             | None \<Rightarrow>
                                                 find_display_position this cm_ed editor_pos)
                              in (received @ first @ map Console logs @
                                  [shown,
                                   Tooltip (ShowOrCreate
                                     \<lparr>markup = mk, anchor = display,
                                      tooltip_id = TOOLTIP_ID, className = CLASS_NAME\<rparr>)],
                                  None)))))
         | _ \<Rightarrow>
             (received @ first @
              [ignoring ''Ignoring signature response: cursor lost or response empty''],
              None))"

section \<open>signature.ts: the request\<close>

text \<open>
  \<^verbatim>\<open>requestSignature\<close> (lines 452 to 482): nothing without a ready connection;
  otherwise the position is recorded in \<^verbatim>\<open>signatureCharacter\<close> and the request is
  sent, and the two arguments are kept for \<^verbatim>\<open>handleSignature\<close>.
\<close>

record pending_request =
  requested_position :: position
  previousPosition :: "editor_position option"

definition requestSignature ::
  "SignatureCM \<Rightarrow> position \<Rightarrow> editor_position option \<Rightarrow> (SignatureCM \<times> pending_request) option" where
  "requestSignature this root_position previous =
     (if \<not> connection_ready this then None
      else Some (this\<lparr>signatureCharacter := Some root_position\<rparr>,
                 \<lparr>requested_position = root_position, previousPosition = previous\<rparr>))"


text \<open>
  \<^verbatim>\<open>_afterChange\<close> (lines 426 to 450): \<open>last_character\<close> is the result of
  \<^verbatim>\<open>extract_last_character(change)\<close>. The result is the effects, the instance, and
  the pending request if one was sent. The test of line 442 reads the getter, which
  fills the cache.
\<close>

definition afterChange ::
  "SignatureCM \<Rightarrow> jsstring \<Rightarrow> position \<Rightarrow>
   effect list \<times> SignatureCM \<times> pending_request option" where
  "afterChange this last_character root_position =
     (let shown = isSignatureShown this;
          previous = (if shown then map_option anchor (tooltip this) else None);
          effects = (if shown \<and> last_character \<in> set (closeCharacters this)
                     then [Tooltip Remove] else []);
          this' = signatureCharacters_cached
                    (this\<lparr>tooltip := run_effects effects (tooltip this)\<rparr>)
      in if \<not> (last_character \<in> set (signatureCharacters this) \<or> shown)
         then (effects, this', None)
         else (case requestSignature this' root_position previous of
                 None \<Rightarrow> (effects, this', None)
               | Some (this'', pending) \<Rightarrow> (effects, this'', Some pending)))"

text \<open>The comparison \<^verbatim>\<open><\<close> of two columns, of which either may be \<^verbatim>\<open>-Infinity\<close>.\<close>

fun jsnum_less :: "jsnum \<Rightarrow> jsnum \<Rightarrow> bool" where
  "jsnum_less NegInfinity (Finite b) = True"
| "jsnum_less (Finite a) (Finite b) = (a < b)"
| "jsnum_less a NegInfinity = False"

text \<open>
  \<^verbatim>\<open>onCursorActivity\<close> (lines 198 to 219), the other caller of
  \<^verbatim>\<open>requestSignature\<close>: nothing unless the popup is shown; then the popup is
  removed, or a request is sent with the position of the popup. \<^verbatim>\<open>tooltip.position\<close>
  is the anchor of the popup that is shown.
\<close>

definition onCursorActivity ::
  "SignatureCM \<Rightarrow> effect list \<times> SignatureCM \<times> pending_request option" where
  "onCursorActivity this =
     (if \<not> isSignatureShown this then ([], this, None)
      else (case tooltip this of
              None \<Rightarrow> ([], this, None)
            | Some opts \<Rightarrow>
                (let newRootPosition = get_cursor_position this;
                     initialPosition = anchor opts;
                     newEditorPosition = root_position_to_editor this newRootPosition
                 in if e_line newEditorPosition = e_line initialPosition \<and>
                       jsnum_less (e_ch newEditorPosition) (e_ch initialPosition)
                    then ([Tooltip Remove],
                          this\<lparr>tooltip := run_effects [Tooltip Remove] (tooltip this)\<rparr>, None)
                    else (case requestSignature this newRootPosition (Some initialPosition) of
                            None \<Rightarrow> ([], this, None)
                          | Some (this', pending) \<Rightarrow> ([], this', Some pending)))))"

section \<open>The completion renderer: getExtraInfo\<close>

record CompletionSource =
  source_name :: "jsstring option"

record CompletionItem =
  detail :: "jsstring option"
  item_type :: "jsstring option"
  source :: "CompletionSource option"

text \<open>\<^verbatim>\<open>x || ''\<close> on \<^verbatim>\<open>string | undefined\<close>.\<close>

fun or_empty :: "jsstring option \<Rightarrow> jsstring" where
  "or_empty None = []"
| "or_empty (Some s) = s"

text \<open>\<^verbatim>\<open>[...].filter(x => !!x)[0]\<close>: the first truthy string, or \<^verbatim>\<open>undefined\<close>.\<close>

fun first_truthy :: "jsstring option list \<Rightarrow> jsstring option" where
  "first_truthy [] = None"
| "first_truthy (None # xs) = first_truthy xs"
| "first_truthy (Some s # xs) = (if s \<noteq> [] then Some s else first_truthy xs)"

text \<open>
  \<open>labelExtra\<close> is the setting \<^verbatim>\<open>this.options.settings.composite.labelExtra\<close>, the
  item may be \<^verbatim>\<open>null\<close> or \<^verbatim>\<open>undefined\<close> (\<open>None\<close>), and so may the result.
  \<^verbatim>\<open>String.prototype.toLowerCase\<close> is a parameter.
\<close>

definition getExtraInfo ::
  "(jsstring \<Rightarrow> jsstring) \<Rightarrow> jsstring \<Rightarrow> CompletionItem option \<Rightarrow>
   log_entry list \<times> jsstring option" where
  "getExtraInfo toLowerCase labelExtra item =
     (let item_detail = Option.bind item detail;
          type_lower = map_option toLowerCase (Option.bind item item_type);
          src_name = Option.bind (Option.bind item source) source_name
      in if labelExtra = js ''detail'' then ([], Some (or_empty item_detail))
         else if labelExtra = js ''type'' then ([], type_lower)
         else if labelExtra = js ''source'' then ([], src_name)
         else if labelExtra = js ''auto''
         then ([], first_truthy [Some (or_empty item_detail), type_lower, src_name])
         else ([LogEntry WARN ''labelExtra does not match any of the expected values''
                  [PString labelExtra]],
               Some []))"


section \<open>Notions of the specification\<close>

text \<open>A blank line holds nothing but whitespace.\<close>

definition blank_line :: "jsstring \<Rightarrow> bool" where
  "blank_line l = list_all is_whitespace l"





text \<open>The number of places of \<open>s\<close> at which \<open>p\<close> starts.\<close>

fun occurrences :: "'a list \<Rightarrow> 'a list \<Rightarrow> nat" where
  "occurrences p [] = (if p = [] then 1 else 0)"
| "occurrences p (x # xs) = (if prefix p (x # xs) then 1 else 0) + occurrences p xs"

section \<open>Concrete inputs\<close>

text \<open>Six lines, the third one empty, and a signature documented by them in Markdown.\<close>

definition six_lines :: "jsstring list" where
  "six_lines = [js ''ab'', js ''cd'', [], js ''x'', js ''y'', js ''z'']"

definition documented_item :: SignatureInformation where
  "documented_item =
     \<lparr>label = js ''f()'',
      documentation = Some (DocMarkup \<lparr>kind = js ''markdown'', mvalue = join_lines six_lines\<rparr>),
      parameters = None, activeParameter = None\<rparr>"

text \<open>
  The signature \<^verbatim>\<open>foo(a, b)\<close> with its two parameters given by offsets into the
  label, and no documentation.
\<close>

definition foo_item :: SignatureInformation where
  "foo_item =
     \<lparr>label = js ''foo(a, b)'', documentation = None,
      parameters = Some [\<lparr>p_label = LabelOffsets 4 5, p_documentation = None\<rparr>,
                         \<lparr>p_label = LabelOffsets 7 8, p_documentation = None\<rparr>],
      activeParameter = None\<rparr>"

text \<open>A code highlighter that marks the variable after the source.\<close>

definition mark_highlighter :: "jsstring \<Rightarrow> jsstring \<Rightarrow> jsstring \<Rightarrow> jsstring" where
  "mark_highlighter src variable language =
     src @ js ''<mark>'' @ variable @ js ''</mark>''"

text \<open>
  An instance with one focused editor holding the single line \<^verbatim>\<open>foo(a, \<close>, the
  cursor at its end, and the server's trigger characters \<^verbatim>\<open>(\<close> and \<^verbatim>\<open>,\<close>. On a
  document of one line the offset of a position is its column and the position of
  an offset is that column on line 0; the position converters rename the fields.
\<close>

definition one_line_feature :: SignatureCM where
  "one_line_feature =
     \<lparr>signatureCharacter = Some \<lparr>line = 0, ch = 4\<rparr>,
      signatureCharacters_cache = [js ''('', js '',''],
      triggerCharacters = Some [js ''('', js '',''],
      closeCharacters = [js '')''],
      maxLines = 4,
      connection_ready = True,
      tooltip = None,
      get_cursor_position = \<lparr>line = 0, ch = 7\<rparr>,
      root_position_to_editor = (\<lambda>p. \<lparr>e_line = line p, e_ch = Finite (ch p)\<rparr>),
      get_cm_editor = (\<lambda>p. \<lparr>hasFocus = True, getValue = js ''foo(a, ''\<rparr>),
      get_language_at = (\<lambda>p e. js ''python''),
      highlightCode = mark_highlighter,
      escapeMarkdown = (\<lambda>s. s),
      offsetAtPosition = (\<lambda>p lines. case ce_column p of Finite k \<Rightarrow> k | NegInfinity \<Rightarrow> 0),
      positionAtOffset = (\<lambda>offset lines. \<lparr>ce_line = 0, ce_column = offset\<rparr>),
      cm_to_ce = (\<lambda>p. \<lparr>ce_line = e_line p, ce_column = e_ch p\<rparr>),
      ce_to_cm = (\<lambda>p. \<lparr>e_line = ce_line p, e_ch = ce_column p\<rparr>)\<rparr>"

definition foo_help :: SignatureHelp where
  "foo_help = \<lparr>signatures = [foo_item], activeSignature = Some 0, h_activeParameter = Some 1\<rparr>"

text \<open>
  A response with two signatures and no active signature; the first signature
  carries its own active parameter.
\<close>

definition bar_item :: SignatureInformation where
  "bar_item =
     \<lparr>label = js ''bar()'', documentation = None, parameters = None, activeParameter = None\<rparr>"

definition two_help :: SignatureHelp where
  "two_help =
     \<lparr>signatures = [foo_item\<lparr>activeParameter := Some 1\<rparr>, bar_item],
      activeSignature = None, h_activeParameter = Some 0\<rparr>"

section \<open>The response without signatures\<close>

lemma handleSignature_Null:
  "handleSignature this Null p d =
     ([Console (LogEntry LOG ''Signature received'' [PResponse Null]), Tooltip Remove,
       Console (LogEntry DEBUG
         ''Ignoring signature response: cursor lost or response empty'' [])],
      None)"
  by (simp add: handleSignature_def)

lemma handleSignature_Undefined:
  "handleSignature this Undefined p d =
     ([Console (LogEntry LOG ''Signature received'' [PResponse Undefined]),
       Console (LogEntry DEBUG
         ''Ignoring signature response: cursor lost or response empty'' [])],
      None)"
  by (simp add: handleSignature_def)

lemma handleSignature_empty:
  "signatures r = [] \<Longrightarrow>
   handleSignature this (Help r) p d =
     ([Console (LogEntry LOG ''Signature received'' [PResponse (Help r)]), Tooltip Hide,
       Tooltip Remove,
       Console (LogEntry DEBUG
         ''Ignoring signature response: cursor lost or response empty'' [])],
      None)"
  by (simp add: handleSignature_def)

lemma handleSignature_lost:
  "signatureCharacter this = None \<Longrightarrow>
   handleSignature this (Help r) p d =
     ([Console (LogEntry LOG ''Signature received'' [PResponse (Help r)]), Tooltip Hide,
       Tooltip Remove,
       Console (LogEntry DEBUG
         ''Ignoring signature response: cursor lost or response empty'' [])],
      None)"
  by (simp add: handleSignature_def)

text \<open>
  C6. \<^verbatim>\<open>handleSignature\<close> on the three outcomes that carry no signature. On
  \<^verbatim>\<open>null\<close> its only call on the popup is \<^verbatim>\<open>remove()\<close>, after which no popup is
  shown, whatever was shown before (\<open>t\<close>). On \<^verbatim>\<open>undefined\<close> it makes no call on the
  popup at all, so the popup stays as it was. On a response whose list of signatures
  is empty it calls \<^verbatim>\<open>hide()\<close> and then \<^verbatim>\<open>remove()\<close>, never \<^verbatim>\<open>showOrCreate\<close>, and no
  popup is shown afterwards. In all three it returns normally.
\<close>

theorem handleSignature_no_signature:
  "tooltip_calls (fst (handleSignature this Null p d)) = [Remove] \<and>
   run_effects (fst (handleSignature this Null p d)) t = None \<and>
   snd (handleSignature this Null p d) = None \<and>
   tooltip_calls (fst (handleSignature this Undefined p d)) = [] \<and>
   run_effects (fst (handleSignature this Undefined p d)) t = t \<and>
   snd (handleSignature this Undefined p d) = None \<and>
   (signatures r = [] \<longrightarrow>
      tooltip_calls (fst (handleSignature this (Help r) p d)) = [Hide, Remove] \<and>
      run_effects (fst (handleSignature this (Help r) p d)) t = None \<and>
      snd (handleSignature this (Help r) p d) = None)"
  by (simp add: handleSignature_Null handleSignature_Undefined handleSignature_empty
      run_effects_def)

theorem handleSignature_no_signature_witness:
  "signatures \<lparr>signatures = [], activeSignature = None, h_activeParameter = None\<rparr> = [] \<and>
   tooltip_calls (fst (handleSignature one_line_feature
     (Help \<lparr>signatures = [], activeSignature = None, h_activeParameter = None\<rparr>)
     \<lparr>line = 0, ch = 4\<rparr> None)) = [Hide, Remove] \<and>
   tooltip_calls (fst (handleSignature one_line_feature Null \<lparr>line = 0, ch = 4\<rparr> None)) =
     [Remove] \<and>
   tooltip_calls (fst (handleSignature one_line_feature Undefined \<lparr>line = 0, ch = 4\<rparr> None)) =
     []"
  using handleSignature_no_signature
    [of one_line_feature "\<lparr>line = 0, ch = 4\<rparr>" None None
        "\<lparr>signatures = [], activeSignature = None, h_activeParameter = None\<rparr>"]
  by simp

section \<open>The stale response\<close>

lemma handleSignature_stale:
  assumes "signatureCharacter this \<noteq> None" and "signatures r \<noteq> []"
    and "line p \<noteq> line (get_cursor_position this) \<or> ch (get_cursor_position this) < ch p"
  shows "handleSignature this (Help r) p d =
     ([Console (LogEntry LOG ''Signature received'' [PResponse (Help r)]), Tooltip Hide,
       Console (LogEntry DEBUG
         ''Ignoring signature response: cursor has receded or changed line'' []),
       Tooltip Remove],
      None)"
  using assms by (simp add: handleSignature_def Let_def)

text \<open>
  C1. For a response with at least one signature: if the cursor read when the
  response arrives is on another line than the position recorded at the request
  (\<open>p\<close>), or on the same line at a smaller character offset, then the calls of
  \<^verbatim>\<open>handleSignature\<close> on the popup are \<^verbatim>\<open>hide()\<close> and \<^verbatim>\<open>remove()\<close> and nothing else:
  the tooltip is removed, \<^verbatim>\<open>showOrCreate\<close> is not called, no popup is shown
  afterwards, and the function returns normally. Nothing is assumed of the content
  of the response, of the focus, or of the display position \<open>d\<close>.
\<close>

theorem handleSignature_stale_removed:
  assumes "signatures r \<noteq> []"
    and "line (get_cursor_position this) \<noteq> line p \<or> ch (get_cursor_position this) < ch p"
  shows "tooltip_calls (fst (handleSignature this (Help r) p d)) = [Hide, Remove] \<and>
         \<not> list_ex is_show (tooltip_calls (fst (handleSignature this (Help r) p d))) \<and>
         run_effects (fst (handleSignature this (Help r) p d)) t = None \<and>
         snd (handleSignature this (Help r) p d) = None"
proof (cases "signatureCharacter this")
  case None
  then show ?thesis
    by (simp add: handleSignature_lost run_effects_def)
next
  case (Some recorded)
  with assms have "handleSignature this (Help r) p d =
     ([Console (LogEntry LOG ''Signature received'' [PResponse (Help r)]), Tooltip Hide,
       Console (LogEntry DEBUG
         ''Ignoring signature response: cursor has receded or changed line'' []),
       Tooltip Remove],
      None)"
    by (intro handleSignature_stale) auto
  then show ?thesis
    by (simp add: run_effects_def)
qed

text \<open>The request at line 3, character 10; the response arrives with the cursor at line 4.\<close>

theorem handleSignature_stale_removed_witness:
  "signatures foo_help \<noteq> [] \<and>
   line (get_cursor_position (one_line_feature\<lparr>get_cursor_position := \<lparr>line = 4, ch = 0\<rparr>\<rparr>))
     \<noteq> line \<lparr>line = 3, ch = 10\<rparr> \<and>
   tooltip_calls (fst (handleSignature
     (one_line_feature\<lparr>get_cursor_position := \<lparr>line = 4, ch = 0\<rparr>\<rparr>)
     (Help foo_help) \<lparr>line = 3, ch = 10\<rparr> None)) = [Hide, Remove]"
proof -
  have sigs: "signatures foo_help \<noteq> []"
    by (simp add: foo_help_def)
  have moved:
    "line (get_cursor_position (one_line_feature\<lparr>get_cursor_position := \<lparr>line = 4, ch = 0\<rparr>\<rparr>))
       \<noteq> line \<lparr>line = 3, ch = 10\<rparr>"
    by simp
  from handleSignature_stale_removed [OF sigs disjI1 [OF moved]] sigs moved
  show ?thesis by blast
qed

section \<open>The label option of the completion renderer\<close>

text \<open>
  C9. For every value of \<^verbatim>\<open>labelExtra\<close> other than \<^verbatim>\<open>'detail'\<close>, \<^verbatim>\<open>'type'\<close>,
  \<^verbatim>\<open>'source'\<close> and \<^verbatim>\<open>'auto'\<close>, \<^verbatim>\<open>getExtraInfo\<close> makes one call of \<^verbatim>\<open>console.warn\<close>,
  whose argument after the message is that value, and returns the empty string; it
  has no path that throws. This holds for every item, also a missing one.
\<close>

theorem getExtraInfo_unrecognised:
  assumes "labelExtra \<noteq> js ''detail''" and "labelExtra \<noteq> js ''type''"
    and "labelExtra \<noteq> js ''source''" and "labelExtra \<noteq> js ''auto''"
  shows "getExtraInfo toLowerCase labelExtra item =
     ([LogEntry WARN ''labelExtra does not match any of the expected values''
         [PString labelExtra]],
      Some [])"
  using assms by (simp add: getExtraInfo_def)

theorem getExtraInfo_unrecognised_witness:
  "js ''kind'' \<noteq> js ''detail'' \<and> js ''kind'' \<noteq> js ''type'' \<and> js ''kind'' \<noteq> js ''source'' \<and>
   js ''kind'' \<noteq> js ''auto'' \<and>
   getExtraInfo (\<lambda>s. s) (js ''kind'') None =
     ([LogEntry WARN ''labelExtra does not match any of the expected values''
         [PString (js ''kind'')]],
      Some [])"
proof -
  have a: "js ''kind'' \<noteq> js ''detail''" and b: "js ''kind'' \<noteq> js ''type''"
    and c: "js ''kind'' \<noteq> js ''source''" and d: "js ''kind'' \<noteq> js ''auto''"
    by (simp_all add: js_def)
  from getExtraInfo_unrecognised [OF a b c d] a b c d show ?thesis
    by blast
qed


section \<open>The lead of a long text\<close>

lemma all_dropWhile: "(\<forall>x\<in>set (dropWhile P xs). P x) \<longleftrightarrow> (\<forall>x\<in>set xs. P x)"
  by (induction xs) auto

lemma trim_empty_iff: "trim s = [] \<longleftrightarrow> blank_line s"
  by (simp add: trim_def blank_line_def all_dropWhile list_all_iff)

lemma search_class_ge: "- 1 \<le> search_class P s"
  by (induction s) (auto simp: Let_def)

lemma search_class_none: "search_class P s = - 1 \<longleftrightarrow> (\<forall>c\<in>set s. \<not> P c)"
proof (induction s)
  case Nil
  show ?case by simp
next
  case (Cons c cs)
  have "- 1 \<le> search_class P cs" by (rule search_class_ge)
  with Cons show ?case by (auto simp: Let_def)
qed

lemma lead_loop_eq:
  "lead_loop xs acc = (acc @ takeWhile (\<lambda>l. \<not> blank_line l) xs, \<exists>l\<in>set xs. blank_line l)"
  by (induction xs arbitrary: acc) (auto simp: trim_empty_iff)

lemma takeWhile_take_found:
  "\<exists>l\<in>set (take n xs). \<not> P l \<Longrightarrow> takeWhile P (take n xs) = takeWhile P xs"
proof (induction xs arbitrary: n)
  case Nil
  then show ?case by simp
next
  case (Cons x xs)
  then show ?case by (cases n) auto
qed

lemma tl_dropWhile_drop: "tl (dropWhile P xs) = drop (Suc (length (takeWhile P xs))) xs"
  by (induction xs) auto

lemma js_slice_0:
  "js_slice xs 0 stop =
     (if 0 \<le> stop then take (nat stop) xs else take (length xs - nat (- stop)) xs)"
proof (cases "0 \<le> stop")
  case True
  then have "take (nat (min stop (int (length xs)))) xs = take (nat stop) xs"
    by (cases "stop \<le> int (length xs)") (simp_all add: min_def)
  with True show ?thesis
    by (simp add: js_slice_def)
next
  case False
  then have "nat (max (int (length xs) + stop) 0) = length xs - nat (- stop)"
    by (simp add: max_def) linarith
  with False show ?thesis
    by (simp add: js_slice_def)
qed

lemma js_slice_from_drop: "js_slice_from xs (int n + 1) = drop (Suc n) xs"
proof (cases "Suc n \<le> length xs")
  case True
  then have "nat (min (int n + 1) (int (length xs))) = Suc n"
    by (simp add: min_def)
  moreover have "nat (int n + 1) = Suc n"
    by simp
  ultimately show ?thesis
    by (simp add: js_slice_from_def js_slice_def Let_def)
next
  case False
  then have "nat (min (int n + 1) (int (length xs))) = length xs"
    by (simp add: min_def)
  with False show ?thesis
    by (simp add: js_slice_from_def js_slice_def Let_def)
qed

text \<open>The lines that the loop of \<^verbatim>\<open>extractLead\<close> walks are a prefix of the lines.\<close>

lemma js_slice_0_take: "\<exists>n. js_slice xs 0 stop = take n xs"
  by (cases "0 \<le> stop") (auto simp: js_slice_0)

lemma extractLead_window:
  assumes "js_slice lines 0 (sz + 1) = take n lines"
  shows "extractLead lines sz =
     (if (\<exists>l\<in>set (take n lines). blank_line l) \<and>
         (\<forall>c\<in>set (join_lines (takeWhile (\<lambda>l. \<not> blank_line l) lines)). \<not> markdown_special c)
      then Some \<lparr>lead = join_lines (takeWhile (\<lambda>l. \<not> blank_line l) lines),
                 remainder = join_lines (tl (dropWhile (\<lambda>l. \<not> blank_line l) lines))\<rparr>
      else None)"
proof (cases "\<exists>l\<in>set (take n lines). blank_line l")
  case True
  then have "takeWhile (\<lambda>l. \<not> blank_line l) (take n lines) =
             takeWhile (\<lambda>l. \<not> blank_line l) lines"
    by (intro takeWhile_take_found) simp
  with True show ?thesis
    by (simp add: extractLead_def assms lead_loop_eq search_class_none tl_dropWhile_drop
        js_slice_from_drop Let_def)
next
  case False
  then show ?thesis
    by (simp add: extractLead_def assms lead_loop_eq)
qed

text \<open>
  C4, as amended. For every list of lines and every integer \<open>sz\<close>, \<^verbatim>\<open>extractLead\<close>
  returns a split exactly when a blank line is among the lines of
  \<^verbatim>\<open>lines.slice(0, size + 1)\<close> and the lines before the first blank line, joined by
  newlines, hold none of \<^verbatim>\<open>\ * # [ ] < > _\<close>. The lines of the slice are the first
  \<open>sz + 1\<close> lines when \<open>sz\<close> is at least \<open>-1\<close>, and all the lines but the last
  \<open>-(sz + 1)\<close> when it is less. The lead is then the lines before the first blank
  line joined, and the remainder is the lines after that blank line, which is
  skipped, joined. In every other case the result is \<^verbatim>\<open>null\<close>.
\<close>

theorem extractLead_split:
  "extractLead lines sz =
     (if (\<exists>l\<in>set (if - 1 \<le> sz then take (nat (sz + 1)) lines
                     else take (length lines - nat (- (sz + 1))) lines). blank_line l) \<and>
         (\<forall>c\<in>set (join_lines (takeWhile (\<lambda>l. \<not> blank_line l) lines)). \<not> markdown_special c)
      then Some \<lparr>lead = join_lines (takeWhile (\<lambda>l. \<not> blank_line l) lines),
                 remainder = join_lines (tl (dropWhile (\<lambda>l. \<not> blank_line l) lines))\<rparr>
      else None)"
proof (cases "- 1 \<le> sz")
  case True
  then have "js_slice lines 0 (sz + 1) = take (nat (sz + 1)) lines"
    by (simp add: js_slice_0)
  from extractLead_window [OF this] True show ?thesis
    by simp
next
  case False
  then have "js_slice lines 0 (sz + 1) = take (length lines - nat (- (sz + 1))) lines"
    by (simp add: js_slice_0)
  from extractLead_window [OF this] False show ?thesis
    by simp
qed

theorem extractLead_split_witness:
  "extractLead six_lines 4 =
     Some \<lparr>lead = js ''ab'' @ [newline] @ js ''cd'',
           remainder = js ''x'' @ [newline] @ js ''y'' @ [newline] @ js ''z''\<rparr>"
  using extractLead_split [of six_lines 4]
  by (simp add: six_lines_def blank_line_def js_def is_whitespace_def markdown_special_def
      newline_def)

text \<open>
  C4 as it is stated, with the first \<open>size + 1\<close> lines for every size, fails at the
  size \<open>-2\<close>: none of the four lines \<^verbatim>\<open>a\<close>, the empty line, \<^verbatim>\<open>b\<close>, \<^verbatim>\<open>c\<close> is among
  the first \<open>-1\<close> lines, yet \<^verbatim>\<open>lines.slice(0, -1)\<close> is the first three of them and
  \<^verbatim>\<open>extractLead\<close> splits at the empty line.
\<close>

theorem extractLead_split_counterexample:
  "take (nat (- 2 + 1)) [js ''a'', [], js ''b'', js ''c''] = [] \<and>
   extractLead [js ''a'', [], js ''b'', js ''c''] (- 2) =
     Some \<lparr>lead = js ''a'', remainder = js ''b'' @ [newline] @ js ''c''\<rparr>"
  by (simp add: extractLead_def js_slice_def js_slice_from_def trim_def is_whitespace_def
      markdown_special_def js_def newline_def)

section \<open>Collapsing\<close>

lemma occurrences_zero_iff: "occurrences p s = 0 \<longleftrightarrow> \<not> sublist p s"
  by (induction s) (auto simp: sublist_Cons_right)

lemma prefix_across:
  assumes "c \<notin> set p"
  shows "prefix p (u @ c # b) \<longleftrightarrow> prefix p u"
proof
  assume "prefix p (u @ c # b)"
  then consider "prefix p u" | q where "p = u @ q" "prefix q (c # b)"
    by (auto simp: prefix_append)
  then show "prefix p u"
  proof cases
    case 1
    then show ?thesis .
  next
    case 2
    with assms have "q = []"
      by (cases q) auto
    with 2 show ?thesis by simp
  qed
next
  assume "prefix p u"
  then show "prefix p (u @ c # b)"
    by (rule prefix_prefix)
qed

lemma occurrences_sep:
  assumes "c \<notin> set p" and "p \<noteq> []"
  shows "occurrences p (a @ c # b) = occurrences p a + occurrences p b"
proof (induction a)
  case Nil
  from assms have "\<not> prefix p (c # b)"
    by (cases p) auto
  with assms show ?case by simp
next
  case (Cons x a)
  have "prefix p ((x # a) @ c # b) \<longleftrightarrow> prefix p (x # a)"
    using assms(1) by (rule prefix_across)
  with Cons show ?case by simp
qed

lemma split_lines_nonempty: "split_lines s \<noteq> []"
  by (induction s) auto

lemma join_lines_Cons_Cons: "join_lines ((c # l) # ls) = c # join_lines (l # ls)"
  by (cases ls) auto

lemma join_split_lines: "join_lines (split_lines s) = s"
proof (induction s)
  case Nil
  show ?case by simp
next
  case (Cons c cs)
  obtain l ls where r: "split_lines cs = l # ls"
    using split_lines_nonempty [of cs] by (cases "split_lines cs") auto
  with Cons show ?case
    by (simp add: join_lines_Cons_Cons)
qed

lemma join_lines_append:
  "xs \<noteq> [] \<Longrightarrow> ys \<noteq> [] \<Longrightarrow> join_lines (xs @ ys) = join_lines xs @ newline # join_lines ys"
proof (induction xs rule: join_lines.induct)
  case 1
  then show ?case by simp
next
  case (2 l)
  then show ?case by (cases ys) auto
next
  case (3 l m ls)
  then show ?case by simp
qed

lemma sublist_join_take: "sublist (join_lines (take k ls)) (join_lines ls)"
proof (cases "take k ls = [] \<or> drop k ls = []")
  case True
  then show ?thesis by auto
next
  case False
  then have "join_lines (take k ls @ drop k ls) =
             join_lines (take k ls) @ newline # join_lines (drop k ls)"
    by (intro join_lines_append) auto
  then have "join_lines ls = join_lines (take k ls) @ newline # join_lines (drop k ls)"
    by simp
  then show ?thesis
    by (metis sublist_append_rightI)
qed

lemma sublist_join_drop: "sublist (join_lines (drop k ls)) (join_lines ls)"
proof (cases "take k ls = [] \<or> drop k ls = []")
  case True
  then show ?thesis by auto
next
  case False
  then have "join_lines (take k ls @ drop k ls) =
             join_lines (take k ls) @ newline # join_lines (drop k ls)"
    by (intro join_lines_append) auto
  then have "join_lines ls = (join_lines (take k ls) @ [newline]) @ join_lines (drop k ls)"
    by simp
  then show ?thesis
    by (metis sublist_append_leftI)
qed

lemma sublist_trim: "sublist (trim s) s"
proof -
  have "suffix (dropWhile is_whitespace (rev (dropWhile is_whitespace s)))
          (rev (dropWhile is_whitespace s))"
    by (rule suffix_dropWhile)
  then have "prefix (trim s) (dropWhile is_whitespace s)"
    by (simp add: trim_def suffix_to_prefix)
  moreover have "suffix (dropWhile is_whitespace s) s"
    by (rule suffix_dropWhile)
  ultimately show ?thesis
    by (meson prefix_imp_sublist suffix_imp_sublist sublist_order.order_trans)
qed


lemma open_tag_facts:
  "newline \<notin> set (js ''<details>'')" "js ''<details>'' \<noteq> []"
  "occurrences (js ''<details>'') (js ''<details>'') = 1"
  "occurrences (js ''<details>'') (js ''</details>'') = 0"
  by (simp_all add: js_def newline_def)

lemma close_tag_facts:
  "newline \<notin> set (js ''</details>'')" "js ''</details>'' \<noteq> []"
  "occurrences (js ''</details>'') (js ''<details>'') = 0"
  "occurrences (js ''</details>'') (js ''</details>'') = 1"
  by (simp_all add: js_def newline_def)

lemma tag_facts:
  assumes "tag = js ''<details>'' \<or> tag = js ''</details>''"
  shows "newline \<notin> set tag" and "tag \<noteq> []"
    and "occurrences tag (js ''<details>'') + occurrences tag (js ''</details>'') = 1"
  using assms open_tag_facts close_tag_facts by auto

lemma occurrences_Cons_sep:
  assumes "c \<notin> set p" and "p \<noteq> []"
  shows "occurrences p (c # b) = occurrences p b"
  using occurrences_sep [OF assms, of "[]" b] assms by simp

lemma occurrences_sublist_zero:
  "occurrences p s = 0 \<Longrightarrow> sublist t s \<Longrightarrow> occurrences p t = 0"
  by (meson occurrences_zero_iff sublist_order.order_trans)

lemma extractLead_sublist:
  assumes "extractLead ls n = Some sp"
  shows "sublist (lead sp) (join_lines ls)" and "sublist (remainder sp) (join_lines ls)"
proof -
  obtain m where m: "js_slice ls 0 (n + 1) = take m ls"
    using js_slice_0_take by blast
  from assms have "Some sp =
      Some \<lparr>lead = join_lines (takeWhile (\<lambda>l. \<not> blank_line l) ls),
            remainder = join_lines (tl (dropWhile (\<lambda>l. \<not> blank_line l) ls))\<rparr>"
    by (subst (asm) extractLead_window [OF m]) (simp split: if_splits)
  then have l: "lead sp = join_lines (takeWhile (\<lambda>l. \<not> blank_line l) ls)"
    and r: "remainder sp = join_lines (tl (dropWhile (\<lambda>l. \<not> blank_line l) ls))"
    by simp_all
  have "takeWhile (\<lambda>l. \<not> blank_line l) ls =
        take (length (takeWhile (\<lambda>l. \<not> blank_line l) ls)) ls"
    by (rule takeWhile_eq_take)
  with l show "sublist (lead sp) (join_lines ls)"
    by (metis sublist_join_take)
  from r show "sublist (remainder sp) (join_lines ls)"
    by (simp add: tl_dropWhile_drop sublist_join_drop)
qed

lemma details_section_empty: "details_section [] n = [newline]"
  by (simp add: details_section_def)

lemma details_section_short:
  "details \<noteq> [] \<Longrightarrow> int (length (split_lines (trim details))) \<le> n \<Longrightarrow>
   details_section details n = newline # newline # details"
  by (simp add: details_section_def)

lemma details_section_lead:
  "details \<noteq> [] \<Longrightarrow> n < int (length (split_lines (trim details))) \<Longrightarrow>
   extractLead (split_lines (trim details)) n = Some sp \<Longrightarrow>
   details_section details n =
     newline # newline # lead sp @ newline # js ''<details>'' @ newline # remainder sp @
     newline # js ''</details>''"
  by (simp add: details_section_def)

lemma details_section_whole:
  "details \<noteq> [] \<Longrightarrow> n < int (length (split_lines (trim details))) \<Longrightarrow>
   extractLead (split_lines (trim details)) n = None \<Longrightarrow>
   details_section details n =
     newline # newline # js ''<details>'' @ newline # details @ newline # js ''</details>''"
  by (simp add: details_section_def)

lemma occurrences_details_section:
  assumes tag: "tag = js ''<details>'' \<or> tag = js ''</details>''"
    and clean: "occurrences tag details = 0"
  shows "occurrences tag (details_section details n) =
           (if details \<noteq> [] \<and> n < int (length (split_lines (trim details))) then 1 else 0)"
proof -
  note sep = occurrences_sep [OF tag_facts(1,2) [OF tag]]
    and sep0 = occurrences_Cons_sep [OF tag_facts(1,2) [OF tag]]
  have nil: "occurrences tag [] = 0"
    using tag_facts(2) [OF tag] by simp
  show ?thesis
  proof (cases "details \<noteq> [] \<and> n < int (length (split_lines (trim details)))")
    case False
    then consider "details = []"
      | "details \<noteq> []" "int (length (split_lines (trim details))) \<le> n"
      by fastforce
    then show ?thesis
    proof cases
      case 1
      then show ?thesis
        by (simp add: details_section_empty sep0 nil del: occurrences.simps)
    next
      case 2
      with clean show ?thesis
        by (simp add: details_section_short sep0 del: occurrences.simps)
    qed
  next
    case True
    show ?thesis
    proof (cases "extractLead (split_lines (trim details)) n")
      case None
      with True have "details_section details n =
          newline # newline # js ''<details>'' @ newline # details @ newline # js ''</details>''"
        by (simp add: details_section_whole)
      with True clean tag_facts(3) [OF tag] show ?thesis
        by (simp add: sep sep0 del: occurrences.simps)
    next
      case (Some sp)
      have "sublist (join_lines (split_lines (trim details))) details"
        by (simp add: join_split_lines sublist_trim)
      with extractLead_sublist [OF Some]
      have "sublist (lead sp) details" and "sublist (remainder sp) details"
        by (meson sublist_order.order_trans)+
      with clean have z: "occurrences tag (lead sp) = 0" "occurrences tag (remainder sp) = 0"
        by (auto intro: occurrences_sublist_zero)
      from True Some have "details_section details n =
          newline # newline # lead sp @ newline # js ''<details>'' @ newline # remainder sp @
          newline # js ''</details>''"
        by (simp add: details_section_lead)
      with True z tag_facts(3) [OF tag] show ?thesis
        by (simp add: sep sep0 del: occurrences.simps)
    qed
  qed
qed

lemma details_section_newline: "\<exists>rest. details_section details n = newline # rest"
  by (simp add: details_section_def Let_def)

lemma occurrences_block_details:
  assumes tag: "tag = js ''<details>'' \<or> tag = js ''</details>''"
  shows "occurrences tag (block @ details_section details n) =
         occurrences tag block + occurrences tag (details_section details n)"
proof -
  obtain rest where r: "details_section details n = newline # rest"
    using details_section_newline by blast
  show ?thesis
    by (simp add: r occurrences_sep [OF tag_facts(1,2) [OF tag]]
        occurrences_Cons_sep [OF tag_facts(1,2) [OF tag]] del: occurrences.simps)
qed

text \<open>
  C3, as amended. \<^verbatim>\<open>signatureToMarkdown\<close> on a signature whose code block is
  \<open>block\<close> and whose details text, before the collapsing, is \<open>details\<close>. The
  collapsible wrapper is the pair of tags \<^verbatim>\<open><details>\<close> and \<^verbatim>\<open></details>\<close>, and
  \<open>tag\<close> is either of them; the code block and the details text hold no such tag of
  their own, so that the tags counted are the ones the function adds. The lines are
  counted as the source counts them, by splitting the trimmed text at newlines, so
  that a text of whitespace only has one line. If the trimmed details text has at
  most \<open>maxl\<close> lines, the returned string holds no tag: there is no wrapper. If the
  details text is not empty and its trimmed form has more than \<open>maxl\<close> lines, the
  returned string holds the opening tag once and the closing tag once: exactly one
  collapsible region. If the details text is empty, the returned string is the code
  block and one newline, with no details section and no tag, whatever the threshold.
\<close>

theorem signatureToMarkdown_collapsing:
  assumes block: "signature_code_block hl item language fallback = (logs, Inr block)"
    and details: "signature_details esc item = (logs', details)"
    and tag: "tag = js ''<details>'' \<or> tag = js ''</details>''"
    and clean: "occurrences tag block = 0" "occurrences tag details = 0"
  shows "\<exists>out. signatureToMarkdown esc item language hl fallback maxl =
                 (logs @ logs', Inr out) \<and>
           (int (length (split_lines (trim details))) \<le> maxl \<longrightarrow> occurrences tag out = 0) \<and>
           (details \<noteq> [] \<and> maxl < int (length (split_lines (trim details))) \<longrightarrow>
              occurrences tag out = 1) \<and>
           (details = [] \<longrightarrow> out = block @ [newline] \<and> occurrences tag out = 0)"
proof -
  have "signatureToMarkdown esc item language hl fallback maxl =
          (logs @ logs', Inr (block @ details_section details maxl))"
    by (simp add: signatureToMarkdown_def block details)
  moreover have "occurrences tag (block @ details_section details maxl) =
      (if details \<noteq> [] \<and> maxl < int (length (split_lines (trim details))) then 1 else 0)"
    by (simp add: occurrences_block_details [OF tag] occurrences_details_section [OF tag clean(2)]
        clean(1))
  moreover have "details = [] \<longrightarrow> block @ details_section details maxl = block @ [newline]"
    by (simp add: details_section_empty)
  ultimately show ?thesis
    by auto
qed

theorem signatureToMarkdown_collapsing_witness:
  "\<exists>out. signatureToMarkdown (\<lambda>s. s) documented_item (js ''python'') mark_highlighter None 4 =
           ([], Inr out) \<and>
         occurrences (js ''<details>'') out = 1"
proof -
  have block: "signature_code_block mark_highlighter documented_item (js ''python'') None =
      ([], Inr (fence (js ''python'') (js ''f()'')))"
    by (simp add: signature_code_block_def documented_item_def)
  have details: "signature_details (\<lambda>s. s) documented_item = ([], join_lines six_lines)"
    by (simp add: signature_details_def documented_item_def js_def)
  have tag: "js ''<details>'' = js ''<details>'' \<or> js ''<details>'' = js ''</details>''"
    by simp
  have clean: "occurrences (js ''<details>'') (fence (js ''python'') (js ''f()'')) = 0"
    "occurrences (js ''<details>'') (join_lines six_lines) = 0"
    by (simp_all add: fence_def six_lines_def js_def newline_def)
  have long: "join_lines six_lines \<noteq> [] \<and>
      4 < int (length (split_lines (trim (join_lines six_lines))))"
    by (simp add: six_lines_def js_def newline_def trim_def is_whitespace_def)
  from signatureToMarkdown_collapsing [OF block details tag clean, of 4] long
  show ?thesis by auto
qed

text \<open>
  C3 as it is stated makes the wrapper depend on the trimmed details text and the
  threshold alone, and fails at the threshold 0. The signature \<^verbatim>\<open>bar()\<close> has the
  empty details text, which the test \<^verbatim>\<open>if (details)\<close> skips: the output has no
  collapsible region, although the trimmed text, split at newlines, has one line,
  more than 0. The signature \<^verbatim>\<open>foo(a, b)\<close> has the details text of two newlines,
  with the same trimmed text, and its output has one collapsible region.
\<close>

theorem signatureToMarkdown_collapsing_counterexample:
  "snd (signature_details (\<lambda>s. s) bar_item) = [] \<and>
   0 < length (split_lines (trim (snd (signature_details (\<lambda>s. s) bar_item)))) \<and>
   signatureToMarkdown (\<lambda>s. s) bar_item (js ''python'') mark_highlighter None 0 =
     ([], Inr (fence (js ''python'') (js ''bar()'') @ [newline])) \<and>
   occurrences (js ''<details>'') (fence (js ''python'') (js ''bar()'') @ [newline]) = 0 \<and>
   trim (snd (signature_details (\<lambda>s. s) foo_item)) =
     trim (snd (signature_details (\<lambda>s. s) bar_item)) \<and>
   signatureToMarkdown (\<lambda>s. s) foo_item (js ''python'') mark_highlighter None 0 =
     ([], Inr (fence (js ''python'') (js ''foo(a, b)'') @ [newline, newline, newline] @
               js ''<details>'' @ [newline, newline] @ js ''</details>'')) \<and>
   occurrences (js ''<details>'')
     (fence (js ''python'') (js ''foo(a, b)'') @ [newline, newline, newline] @
      js ''<details>'' @ [newline, newline] @ js ''</details>'') = 1"
  by (simp add: signatureToMarkdown_def signature_code_block_def signature_details_def
      details_section_def foo_item_def bar_item_def extractLead_def js_slice_def
      js_slice_from_def trim_def is_whitespace_def markdown_special_def fence_def js_def
      newline_def)

section \<open>Parameters without documentation\<close>

lemma signature_details_undocumented:
  assumes "parameters item = Some ps" and "\<not> truthy (documentation item)"
    and "\<forall>p\<in>set ps. \<not> truthy (p_documentation p)"
  shows "signature_details esc item = ([], [newline, newline])"
proof -
  from assms(3) have "filter (\<lambda>parameter. truthy (p_documentation parameter)) ps = []"
    by (simp add: filter_empty_conv)
  with assms(1,2) show ?thesis
    by (simp add: signature_details_def)
qed

lemma details_section_two_newlines:
  "1 \<le> maxl \<Longrightarrow>
   details_section [newline, newline] maxl = [newline, newline, newline, newline]"
  by (simp add: details_section_def trim_def is_whitespace_def newline_def)

text \<open>
  C10, as amended. For a signature with a list of parameters, no documentation of
  its own and no documented parameter, and a threshold \<^verbatim>\<open>maxLinesBeforeCollapse\<close> of
  at least one line: the synthesized details text, two newlines, counts as present,
  and the returned string is the code block followed by four newlines, not by the
  single newline of a signature without details text. The code block is whatever
  lines 88 to 111 give for the active parameter, provided they do not throw.
\<close>

theorem signatureToMarkdown_undocumented_parameters:
  assumes "parameters item = Some ps" and "\<not> truthy (documentation item)"
    and "\<forall>p\<in>set ps. \<not> truthy (p_documentation p)"
    and "1 \<le> maxl"
    and "signature_code_block hl item language fallback = (logs, Inr block)"
  shows "signatureToMarkdown esc item language hl fallback maxl =
           (logs, Inr (block @ [newline, newline, newline, newline]))"
  using assms(4,5)
  by (simp add: signatureToMarkdown_def signature_details_undocumented [OF assms(1-3)]
      details_section_two_newlines)

theorem signatureToMarkdown_undocumented_parameters_witness:
  "parameters foo_item \<noteq> None \<and> \<not> truthy (documentation foo_item) \<and> (1::int) \<le> 4 \<and>
   signatureToMarkdown (\<lambda>s. s) foo_item (js ''python'') mark_highlighter None 4 =
     ([], Inr (fence (js ''python'') (js ''foo(a, b)'') @
               [newline, newline, newline, newline]))"
proof -
  have ps: "parameters foo_item =
      Some [\<lparr>p_label = LabelOffsets 4 5, p_documentation = None\<rparr>,
            \<lparr>p_label = LabelOffsets 7 8, p_documentation = None\<rparr>]"
    and doc: "\<not> truthy (documentation foo_item)"
    by (simp_all add: foo_item_def)
  have params: "\<forall>p\<in>set [\<lparr>p_label = LabelOffsets 4 5, p_documentation = None\<rparr>,
                          \<lparr>p_label = LabelOffsets 7 8, p_documentation = None\<rparr>].
                  \<not> truthy (p_documentation p)"
    by simp
  have one: "(1::int) \<le> 4"
    by simp
  have block: "signature_code_block mark_highlighter foo_item (js ''python'') None =
      ([], Inr (fence (js ''python'') (js ''foo(a, b)'')))"
    by (simp add: signature_code_block_def foo_item_def)
  from signatureToMarkdown_undocumented_parameters [OF ps doc params one block] ps doc
  show ?thesis by simp
qed

text \<open>
  C10 as it is stated names no threshold, and fails at the threshold 0: the one
  empty line of the trimmed details text is then more than the threshold,
  \<^verbatim>\<open>extractLead\<close> splits at it, and the code block of \<^verbatim>\<open>foo(a, b)\<close> is followed by
  three newlines and an empty collapsible region, not by four newlines.
\<close>

theorem signatureToMarkdown_undocumented_parameters_counterexample:
  "signatureToMarkdown (\<lambda>s. s) foo_item (js ''python'') mark_highlighter None 0 =
     ([], Inr (fence (js ''python'') (js ''foo(a, b)'') @ [newline, newline, newline] @
               js ''<details>'' @ [newline, newline] @ js ''</details>'')) \<and>
   signatureToMarkdown (\<lambda>s. s) foo_item (js ''python'') mark_highlighter None 0 \<noteq>
     ([], Inr (fence (js ''python'') (js ''foo(a, b)'') @
               [newline, newline, newline, newline]))"
  by (simp add: signatureToMarkdown_def signature_code_block_def signature_details_def
      details_section_def foo_item_def extractLead_def js_slice_def js_slice_from_def
      trim_def is_whitespace_def markdown_special_def fence_def js_def newline_def)

section \<open>The active parameter out of range\<close>

text \<open>An index beyond the number of parameters is logged, and the block is unmarked.\<close>

lemma signature_code_block_beyond:
  assumes "parameters item = Some ps"
    and "(case activeParameter item of Some a \<Rightarrow> Some a | None \<Rightarrow> fallback) = Some a"
    and "int (length ps) < a"
  shows "signature_code_block hl item language fallback =
     ([LogEntry ERROR ''LSP server returned wrong number for activeSignature for: ''
         [PItem item]],
      Inr (fence language (label item)))"
  using assms by (simp add: signature_code_block_def)

text \<open>An index equal to the number of parameters, or a negative one, throws.\<close>

lemma signature_code_block_throws:
  assumes "parameters item = Some ps"
    and "(case activeParameter item of Some a \<Rightarrow> Some a | None \<Rightarrow> fallback) = Some a"
    and "a = int (length ps) \<or> a < 0"
  shows "signature_code_block hl item language fallback = ([], Inl TypeError)"
  using assms by (auto simp add: signature_code_block_def)

lemma signatureToMarkdown_throws:
  assumes "parameters item = Some ps"
    and "(case activeParameter item of Some a \<Rightarrow> Some a | None \<Rightarrow> fallback) = Some a"
    and "a = int (length ps) \<or> a < 0"
  shows "signatureToMarkdown esc item language hl fallback maxl = ([], Inl TypeError)"
  by (simp add: signatureToMarkdown_def signature_code_block_throws [OF assms])

text \<open>
  C2. The claim asks that every index outside \<open>[0, len(parameters))\<close> be logged and
  answered by the unmarked code block, without a throw. The source compares with
  \<^verbatim>\<open>activeParameter > item.parameters.length\<close>, so the index equal to the length
  passes the check: for every signature with a list of parameters and the active
  parameter, its own or the fallback, equal to their number, \<^verbatim>\<open>signatureToMarkdown\<close>
  logs nothing and throws a TypeError.
\<close>

theorem signatureToMarkdown_index_at_length:
  assumes "parameters item = Some ps"
    and "(case activeParameter item of Some a \<Rightarrow> Some a | None \<Rightarrow> fallback) =
         Some (int (length ps))"
  shows "signatureToMarkdown esc item language hl fallback maxl = ([], Inl TypeError)"
  by (simp add: signatureToMarkdown_def signature_code_block_throws [OF assms disjI1 [OF refl]])

theorem signatureToMarkdown_index_at_length_witness:
  "parameters foo_item \<noteq> None \<and>
   signatureToMarkdown (\<lambda>s. s) foo_item (js ''python'') mark_highlighter (Some 2) 4 =
     ([], Inl TypeError)"
proof -
  have ps: "parameters foo_item =
      Some [\<lparr>p_label = LabelOffsets 4 5, p_documentation = None\<rparr>,
            \<lparr>p_label = LabelOffsets 7 8, p_documentation = None\<rparr>]"
    by (simp add: foo_item_def)
  have active: "(case activeParameter foo_item of Some a \<Rightarrow> Some a | None \<Rightarrow> Some 2) =
      Some (int (length [\<lparr>p_label = LabelOffsets 4 5, p_documentation = None\<rparr>,
                         \<lparr>p_label = LabelOffsets 7 8, p_documentation = None\<rparr>]))"
    by (simp add: foo_item_def)
  from signatureToMarkdown_index_at_length [OF ps active] ps show ?thesis
    by simp
qed

section \<open>The response without an active signature\<close>

lemma format_all_results:
  assumes "list_all2 (\<lambda>item res. signatureToMarkdown_method this item language None =
                        (fst res, Inr (snd res))) items results"
  shows "format_all this language items logs acc =
           (logs @ concat (map fst results), Inr (acc @ map snd results))"
  using assms by (induction arbitrary: logs acc rule: list_all2_induct) auto

lemma signatureToMarkdown_method_plain:
  assumes "activeParameter item = None"
  shows "signatureToMarkdown_method this item language None =
           (fst (signature_details (escapeMarkdown this) item),
            Inr (fence language (label item) @
                 details_section (snd (signature_details (escapeMarkdown this) item))
                   (maxLines this)))"
  using assms
  by (simp add: signatureToMarkdown_method_def signatureToMarkdown_def signature_code_block_def
      split: prod.splits option.splits)

lemma signatureToMarkdown_method_own:
  assumes "activeParameter item = Some a" and "parameters item = Some ps"
    and "0 \<le> a" and "a < int (length ps)"
  shows "signatureToMarkdown_method this item language None =
           (fst (signature_details (escapeMarkdown this) item),
            Inr (highlightCode this (label item)
                   (case p_label (ps ! nat a) of
                      LabelString s \<Rightarrow> s
                    | LabelOffsets b e \<Rightarrow> js_slice (label item) b e)
                   language @
                 details_section (snd (signature_details (escapeMarkdown this) item))
                   (maxLines this)))"
  using assms
  by (simp add: signatureToMarkdown_method_def signatureToMarkdown_def signature_code_block_def
      Let_def split: prod.splits)

text \<open>
  C8, as amended. For a response whose active signature is absent, or at least the
  number of signatures (which is logged as an error): every signature is formatted
  with no fallback for the active parameter, so the active parameter of the response
  is not used; when each formatting returns (\<open>results\<close> are the entries logged and
  the strings returned, in order), the value is these strings joined by a blank line.
  A signature that carries no active parameter of its own is formatted as the
  unmarked code block followed by its details section. A signature that carries an
  active parameter of its own, within its list of parameters, is formatted with it:
  the code highlighter is called on the label and the text of that parameter, and
  its result is followed by the details section.
\<close>

theorem get_markup_without_active_signature:
  assumes "activeSignature r = None \<or>
           (\<exists>a. activeSignature r = Some a \<and> int (length (signatures r)) \<le> a)"
    and "list_all2 (\<lambda>item res. signatureToMarkdown_method this item language None =
                      (fst res, Inr (snd res))) (signatures r) results"
  shows "get_markup_for_signature_help this r language =
           ((if activeSignature r = None then []
             else [LogEntry ERROR
                     ''LSP server returned wrong number for activeSignature for: ''
                     [PHelp r]]) @ concat (map fst results),
            Inr \<lparr>kind = js ''markdown'', mvalue = join_blank (map snd results)\<rparr>) \<and>
         (\<forall>item\<in>set (signatures r). activeParameter item = None \<longrightarrow>
            signatureToMarkdown_method this item language None =
              (fst (signature_details (escapeMarkdown this) item),
               Inr (fence language (label item) @
                    details_section (snd (signature_details (escapeMarkdown this) item))
                      (maxLines this)))) \<and>
         (\<forall>item\<in>set (signatures r). \<forall>a ps.
            activeParameter item = Some a \<and> parameters item = Some ps \<and>
            0 \<le> a \<and> a < int (length ps) \<longrightarrow>
            signatureToMarkdown_method this item language None =
              (fst (signature_details (escapeMarkdown this) item),
               Inr (highlightCode this (label item)
                      (case p_label (ps ! nat a) of
                         LabelString s \<Rightarrow> s
                       | LabelOffsets b e \<Rightarrow> js_slice (label item) b e)
                      language @
                    details_section (snd (signature_details (escapeMarkdown this) item))
                      (maxLines this))))"
proof -
  have "get_markup_for_signature_help this r language =
           ((if activeSignature r = None then []
             else [LogEntry ERROR
                     ''LSP server returned wrong number for activeSignature for: ''
                     [PHelp r]]) @ concat (map fst results),
            Inr \<lparr>kind = js ''markdown'', mvalue = join_blank (map snd results)\<rparr>)"
    using assms(1)
    by (auto simp: get_markup_for_signature_help_def format_all_results [OF assms(2)])
  then show ?thesis
    by (simp add: signatureToMarkdown_method_plain signatureToMarkdown_method_own)
qed

lemmas evaluation =
  handleSignature_def get_markup_for_signature_help_def signatureToMarkdown_method_def
  signatureToMarkdown_def signature_code_block_def signature_details_def details_section_def
  one_line_feature_def foo_help_def foo_item_def find_display_position_def lastIndexOf_def
  js_def newline_def trim_def is_whitespace_def js_slice_def mark_highlighter_def fence_def
  signatureCharacters_def Let_def TOOLTIP_ID_def CLASS_NAME_def

theorem get_markup_without_active_signature_witness:
  "activeSignature two_help = None \<and>
   get_markup_for_signature_help one_line_feature two_help (js ''python'') =
     ([], Inr \<lparr>kind = js ''markdown'',
               mvalue = join_blank
                 [js ''foo(a, b)<mark>b</mark>'' @ [newline, newline, newline, newline],
                  fence (js ''python'') (js ''bar()'') @ [newline]]\<rparr>)"
proof -
  have absent: "activeSignature two_help = None \<or>
      (\<exists>a. activeSignature two_help = Some a \<and> int (length (signatures two_help)) \<le> a)"
    by (simp add: two_help_def)
  have each: "list_all2 (\<lambda>item res.
        signatureToMarkdown_method one_line_feature item (js ''python'') None =
          (fst res, Inr (snd res)))
      (signatures two_help)
      [([], js ''foo(a, b)<mark>b</mark>'' @ [newline, newline, newline, newline]),
       ([], fence (js ''python'') (js ''bar()'') @ [newline])]"
    by (simp add: two_help_def bar_item_def evaluation)
  from get_markup_without_active_signature [OF absent each] absent
  show ?thesis by (simp add: two_help_def)
qed

text \<open>
  C8 as it is stated fails: in a response of two signatures with no active
  signature, the first signature, \<^verbatim>\<open>foo(a, b)\<close> with its own active parameter 1,
  is rendered by the code highlighter with \<^verbatim>\<open>b\<close> marked, not as the unmarked block.
\<close>

theorem get_markup_without_active_signature_counterexample:
  "1 < length (signatures two_help) \<and> activeSignature two_help = None \<and>
   get_markup_for_signature_help one_line_feature two_help (js ''python'') =
     ([], Inr \<lparr>kind = js ''markdown'',
               mvalue = js ''foo(a, b)<mark>b</mark>'' @ [newline, newline, newline, newline] @
                        [newline, newline] @ fence (js ''python'') (js ''bar()'') @
                        [newline]\<rparr>) \<and>
   js ''foo(a, b)<mark>b</mark>'' \<noteq> fence (js ''python'') (js ''foo(a, b)'')"
  by (simp add: two_help_def bar_item_def evaluation)

section \<open>The accepted response\<close>

lemma tooltip_calls_append: "tooltip_calls (xs @ ys) = tooltip_calls xs @ tooltip_calls ys"
  by (induction xs rule: tooltip_calls.induct) auto

lemma tooltip_calls_Console: "tooltip_calls (map Console logs) = []"
  by (induction logs) auto


text \<open>When the formatting throws instead, the popup stays hidden and the exception leaves.\<close>

lemma handleSignature_format_throws:
  assumes "signatureCharacter this \<noteq> None" and "signatures r \<noteq> []"
    and "line p = line (get_cursor_position this)"
    and "ch p \<le> ch (get_cursor_position this)"
    and "hasFocus (get_cm_editor this (get_cursor_position this))"
    and "get_markup_for_signature_help this r
           (get_language_at this (root_position_to_editor this (get_cursor_position this))
              (get_cm_editor this (get_cursor_position this))) = (logs, Inl e)"
  shows "tooltip_calls (fst (handleSignature this (Help r) p d)) = [Hide]"
    and "snd (handleSignature this (Help r) p d) = Some e"
  using assms
  by (simp_all add: handleSignature_def Let_def tooltip_calls_append tooltip_calls_Console)

lemma get_markup_throws:
  assumes "activeSignature r = Some a" and "0 \<le> a" and "a < int (length (signatures r))"
    and "parameters (signatures r ! nat a) = Some ps"
    and "(case activeParameter (signatures r ! nat a) of Some b \<Rightarrow> Some b
          | None \<Rightarrow> h_activeParameter r) = Some (int (length ps))"
  shows "get_markup_for_signature_help this r language = ([], Inl TypeError)"
  using assms(1-3)
  by (simp add: get_markup_for_signature_help_def signatureToMarkdown_method_def
      signatureToMarkdown_throws [OF assms(4,5) disjI1 [OF refl]])

text \<open>
  C5. The claim asks that every response with signatures be shown when the cursor
  is on the line of the request, not before its character, and the editor has the
  focus. Under exactly these conditions, when the active signature of the response
  has a list of parameters and the active parameter, its own or the one of the
  response, equals their number, \<^verbatim>\<open>handleSignature\<close> calls \<^verbatim>\<open>hide()\<close>, the formatting
  throws a TypeError, and \<^verbatim>\<open>showOrCreate\<close> is never called.
\<close>

theorem handleSignature_accepted_throws:
  assumes "signatureCharacter this \<noteq> None" and "signatures r \<noteq> []"
    and "line p = line (get_cursor_position this)"
    and "ch p \<le> ch (get_cursor_position this)"
    and "hasFocus (get_cm_editor this (get_cursor_position this))"
    and "activeSignature r = Some a" and "0 \<le> a" and "a < int (length (signatures r))"
    and "parameters (signatures r ! nat a) = Some ps"
    and "(case activeParameter (signatures r ! nat a) of Some b \<Rightarrow> Some b
          | None \<Rightarrow> h_activeParameter r) = Some (int (length ps))"
  shows "tooltip_calls (fst (handleSignature this (Help r) p d)) = [Hide] \<and>
         \<not> list_ex is_show (tooltip_calls (fst (handleSignature this (Help r) p d))) \<and>
         snd (handleSignature this (Help r) p d) = Some TypeError"
  using handleSignature_format_throws [OF assms(1-5) get_markup_throws [OF assms(6-10)], of d]
  by simp

theorem handleSignature_accepted_throws_witness:
  "signatures (foo_help\<lparr>h_activeParameter := Some 2\<rparr>) \<noteq> [] \<and>
   line \<lparr>line = 0, ch = 4\<rparr> = line (get_cursor_position one_line_feature) \<and>
   ch \<lparr>line = 0, ch = 4\<rparr> \<le> ch (get_cursor_position one_line_feature) \<and>
   hasFocus (get_cm_editor one_line_feature (get_cursor_position one_line_feature)) \<and>
   tooltip_calls (fst (handleSignature one_line_feature
      (Help (foo_help\<lparr>h_activeParameter := Some 2\<rparr>)) \<lparr>line = 0, ch = 4\<rparr> None)) = [Hide] \<and>
   snd (handleSignature one_line_feature
      (Help (foo_help\<lparr>h_activeParameter := Some 2\<rparr>)) \<lparr>line = 0, ch = 4\<rparr> None) =
     Some TypeError"
proof -
  let ?r = "foo_help\<lparr>h_activeParameter := Some 2\<rparr>"
  have 1: "signatureCharacter one_line_feature \<noteq> None"
    and 2: "signatures ?r \<noteq> []"
    and 3: "line \<lparr>line = 0, ch = 4\<rparr> = line (get_cursor_position one_line_feature)"
    and 4: "ch \<lparr>line = 0, ch = 4\<rparr> \<le> ch (get_cursor_position one_line_feature)"
    and 5: "hasFocus (get_cm_editor one_line_feature (get_cursor_position one_line_feature))"
    and 6: "activeSignature ?r = Some 0" and 7: "(0::int) \<le> 0"
    and 8: "0 < int (length (signatures ?r))"
    and 9: "parameters (signatures ?r ! nat 0) =
              Some [\<lparr>p_label = LabelOffsets 4 5, p_documentation = None\<rparr>,
                    \<lparr>p_label = LabelOffsets 7 8, p_documentation = None\<rparr>]"
    and 10: "(case activeParameter (signatures ?r ! nat 0) of Some b \<Rightarrow> Some b
              | None \<Rightarrow> h_activeParameter ?r) =
             Some (int (length [\<lparr>p_label = LabelOffsets 4 5, p_documentation = None\<rparr>,
                                \<lparr>p_label = LabelOffsets 7 8, p_documentation = None\<rparr>]))"
    by (simp_all add: one_line_feature_def foo_help_def foo_item_def)
  from handleSignature_accepted_throws [OF 1 2 3 4 5 6 7 8 9 10, of None] 2 3 4 5
  show ?thesis by simp
qed

section \<open>The anchor of the popup\<close>


lemma signatureCharacters_cached_cache:
  "signatureCharacters_cache (signatureCharacters_cached this) = signatureCharacters this"
  by (simp add: signatureCharacters_cached_def)

lemma signatureCharacters_cached_keeps:
  "signatureCharacters_cache this \<noteq> [] \<Longrightarrow> signatureCharacters_cached this = this"
  by (simp add: signatureCharacters_cached_def signatureCharacters_def)


lemma afterChange_keeps_cache:
  assumes "signatureCharacters_cache this \<noteq> []"
    and "afterChange this last_character root_position = (effects, this', pending)"
  shows "signatureCharacters_cache this' = signatureCharacters_cache this"
  using assms
  by (auto simp: afterChange_def Let_def requestSignature_def signatureCharacters_cached_def
      signatureCharacters_def split: if_splits)

lemma onCursorActivity_keeps_cache:
  assumes "onCursorActivity this = (effects, this', pending)"
  shows "signatureCharacters_cache this' = signatureCharacters_cache this"
  using assms
  by (auto simp: onCursorActivity_def Let_def requestSignature_def
      split: if_splits option.splits)














text \<open>
  With no trigger character at all, \<^verbatim>\<open>Math.max()\<close> is \<^verbatim>\<open>-Infinity\<close>, which is not
  \<open>-1\<close>, and the position found would be the one that \<^verbatim>\<open>positionAtOffset\<close> gives for
  \<^verbatim>\<open>-Infinity\<close>. By \<open>afterChange_request\<close> no response meets this case: a request
  without a display position leaves a cache that is not empty.
\<close>

lemma find_display_position_no_triggers:
  "signatureCharacters this = [] \<Longrightarrow>
   find_display_position this ed pos =
     ce_to_cm this (positionAtOffset this NegInfinity (split_lines (getValue ed)))"
  by (simp add: find_display_position_def)



end
